theory Spec2Isabelle
  imports
    Complex_Main
    "HOL-Library.Char_ord"
    "HOL-Library.List_Lexorder"
    "HOL-Library.Product_Lexorder"
begin

section \<open>Data model of \<^verbatim>\<open>discord_server_watcher.py\<close>\<close>

subsection \<open>JSON values and Python's \<^verbatim>\<open>int()\<close>\<close>

text \<open>
  The registry answers with JSON. After decoding, a field of a record is one of the
  Python values below. A decoded float is a double: a finite one is a rational number,
  the others are the two infinities and NaN.
\<close>

datatype pyfloat = FloatVal rat | FloatInf bool | FloatNaN

datatype json =
    JNull
  | JBool bool
  | JInt int
  | JFloat pyfloat
  | JStr string
  | JArray "json list"
  | JObject "(string \<times> json) list"

text \<open>The exceptions that \<^verbatim>\<open>int()\<close> raises.\<close>

datatype py_error = TypeError | ValueError | OverflowError

text \<open>
  \<^verbatim>\<open>int(s)\<close> on a string, for ASCII text: blanks are stripped on both sides, one sign
  may follow, then decimal digits, where a single underscore may stand between two
  digits. Anything else raises ValueError. Strings are byte strings here, and a byte
  above 127 is no digit and no blank (Python also reads the decimal digits and blanks
  of other scripts; such strings are not covered by this model). Since CPython 3.11 a
  literal of more than 4300 digits raises ValueError too.
\<close>

definition is_space :: "char \<Rightarrow> bool" where
  "is_space c = (of_char c \<in> {9, 10, 11, 12, 13, 32 :: nat})"

definition is_digit :: "char \<Rightarrow> bool" where
  "is_digit c = (48 \<le> (of_char c :: nat) \<and> (of_char c :: nat) \<le> 57)"

definition digit_val :: "char \<Rightarrow> int" where
  "digit_val c = int (of_char c) - 48"

definition max_str_digits :: nat where
  "max_str_digits = 4300"

definition strip :: "string \<Rightarrow> string" where
  "strip s = rev (dropWhile is_space (rev (dropWhile is_space s)))"

text \<open>
  The digits after the sign: the value read so far, the number of digits read so far,
  and the text left. \<open>None\<close> is a malformed literal.
\<close>

fun parse_digits :: "int \<Rightarrow> nat \<Rightarrow> string \<Rightarrow> (int \<times> nat) option" where
  "parse_digits acc n [] = Some (acc, n)"
| "parse_digits acc n (c # cs) =
     (if is_digit c then parse_digits (10 * acc + digit_val c) (Suc n) cs
      else if c = CHR ''_'' then
        (case cs of
           [] \<Rightarrow> None
         | d # ds \<Rightarrow> if is_digit d then parse_digits acc n cs else None)
      else None)"

definition py_int_str :: "string \<Rightarrow> py_error + int" where
  "py_int_str s =
     (let t = strip s;
          neg = (case t of [] \<Rightarrow> False | c # _ \<Rightarrow> c = CHR ''-'');
          body = (case t of
                    [] \<Rightarrow> []
                  | c # cs \<Rightarrow> if c = CHR ''-'' \<or> c = CHR ''+'' then cs else t)
      in case body of
           [] \<Rightarrow> Inl ValueError
         | c # _ \<Rightarrow>
             if \<not> is_digit c then Inl ValueError
             else (case parse_digits 0 0 body of
                     None \<Rightarrow> Inl ValueError
                   | Some (v, n) \<Rightarrow>
                       if max_str_digits < n then Inl ValueError
                       else Inr (if neg then - v else v)))"

text \<open>\<^verbatim>\<open>int(x)\<close> on a float rounds towards zero.\<close>

definition py_int_float :: "pyfloat \<Rightarrow> py_error + int" where
  "py_int_float f =
     (case f of
        FloatVal q \<Rightarrow> Inr (if q < 0 then \<lceil>q\<rceil> else \<lfloor>q\<rfloor>)
      | FloatInf _ \<Rightarrow> Inl OverflowError
      | FloatNaN \<Rightarrow> Inl ValueError)"

definition py_int :: "json \<Rightarrow> py_error + int" where
  "py_int v =
     (case v of
        JNull \<Rightarrow> Inl TypeError
      | JBool b \<Rightarrow> Inr (if b then 1 else 0)
      | JInt n \<Rightarrow> Inr n
      | JFloat f \<Rightarrow> py_int_float f
      | JStr s \<Rightarrow> py_int_str s
      | JArray _ \<Rightarrow> Inl TypeError
      | JObject _ \<Rightarrow> Inl TypeError)"

subsection \<open>Records, keys and snapshots\<close>

text \<open>
  A raw registry record is a JSON object. The watcher reads three of its fields with
  \<^verbatim>\<open>s.get\<close>; a field is \<open>None\<close> when the object has no such key. The name and the
  address are strings, as \<^verbatim>\<open>ServerKey = Tuple[str, str, int]\<close> declares them; the
  port is kept as the decoded JSON value, because \<^verbatim>\<open>_key\<close> converts it.
  A record whose name or address is another JSON value (null, a number, a list) is not
  such a record: Python then compares and hashes values of mixed types, which may raise
  in the set comprehension or in \<^verbatim>\<open>sorted\<close>. The poll cycle below is the cycle on
  records with string names and addresses; \<^verbatim>\<open>_key\<close> alone is also given on
  arbitrary JSON objects, as \<open>key_raw\<close>.
  Strings are UTF-8 byte strings: their bytewise lexicographic order is the order of
  Python's \<^verbatim>\<open>str\<close> (by code point).
\<close>

record raw_record =
  name :: "string option"
  public_ip :: "string option"
  port :: "json option"

type_synonym server_key = "string \<times> string \<times> int"

text \<open>
  \<^verbatim>\<open>def _key(s): return (s.get("name", ""), s.get("public_ip", ""), int(s.get("port", 0)))\<close>
\<close>

definition key :: "raw_record \<Rightarrow> py_error + server_key" where
  "key s =
     (case py_int (case port s of None \<Rightarrow> JInt 0 | Some v \<Rightarrow> v) of
        Inl e \<Rightarrow> Inl e
      | Inr p \<Rightarrow>
          Inr (case name s of None \<Rightarrow> [] | Some n \<Rightarrow> n,
               case public_ip s of None \<Rightarrow> [] | Some a \<Rightarrow> a,
               p))"



text \<open>
  \<^verbatim>\<open>current = {_key(s) for s in servers}\<close>: the records are resolved in order, and the
  first one that raises ends the comprehension.
\<close>

fun key_set :: "raw_record list \<Rightarrow> py_error + server_key set" where
  "key_set [] = Inr {}"
| "key_set (s # ss) =
     (case key s of
        Inl e \<Rightarrow> Inl e
      | Inr k \<Rightarrow> (case key_set ss of Inl e \<Rightarrow> Inl e | Inr ks \<Rightarrow> Inr (insert k ks)))"

text \<open>
  The filter of the poll cycle and of the status command:
  \<^verbatim>\<open>if self.watch_names: servers = [s for s in servers if s.get("name") in self.watch_names]\<close>.
  A record without a name gives \<^verbatim>\<open>None\<close>, which is in no set of names.
\<close>

definition tracked :: "string set \<Rightarrow> raw_record list \<Rightarrow> raw_record list" where
  "tracked watch servers =
     (if watch \<noteq> {} then
        filter (\<lambda>s. case name s of None \<Rightarrow> False | Some n \<Rightarrow> n \<in> watch) servers
      else servers)"

text \<open>
  The two set differences of the poll cycle:
  \<^verbatim>\<open>ups = current - self._last_seen\<close>, \<^verbatim>\<open>downs = self._last_seen - current\<close>.
\<close>

definition diff :: "server_key set \<Rightarrow> server_key set \<Rightarrow> server_key set \<times> server_key set" where
  "diff previous current = (current - previous, previous - current)"

subsection \<open>The state file\<close>

text \<open>
  The state file holds a JSON array of \<^verbatim>\<open>[name, address, port]\<close> triples, the layout
  that \<^verbatim>\<open>save_state\<close> writes. It may be absent, or present but not readable as JSON
  (a truncated or damaged file).
\<close>

datatype state_file = Missing | Unreadable | Stored "server_key list"

text \<open>
  \<^verbatim>\<open>load_state\<close>: an empty set when the file is absent or when reading raises, else
  \<^verbatim>\<open>{tuple(x) for x in json.load(...)}\<close>.
\<close>

definition load_state :: "state_file \<Rightarrow> server_key set" where
  "load_state f = (case f of Missing \<Rightarrow> {} | Unreadable \<Rightarrow> {} | Stored ks \<Rightarrow> set ks)"

text \<open>
  What happens to a write is decided by the file system: it succeeds, or
  \<^verbatim>\<open>open(STATE_FILE, "w")\<close> raises and the file stays as it was, or \<^verbatim>\<open>json.dump\<close>
  raises after the file has been truncated.
\<close>

datatype write_outcome = Written | OpenFailed | DumpFailed

subsection \<open>The bot and what it acts on\<close>

datatype event = Up server_key | Down server_key

text \<open>Why a fetch failed: \<^verbatim>\<open>fetch_servers\<close> raises, and the caller catches any exception.\<close>

datatype fetch_error = Timeout | Transport | BadStatus nat | BadBody

text \<open>
  A log line: the warning \<^verbatim>\<open>"Fetch error: %s"\<close>, or the \<^verbatim>\<open>"UP: ..."\<close> and
  \<^verbatim>\<open>"DOWN: ..."\<close> lines at level info. The texts are fixed templates around the key, so
  an event stands for its line and for its channel message.
\<close>

datatype log_entry = FetchWarning fetch_error | Info event

text \<open>
  The fields of \<^verbatim>\<open>WatcherBot\<close> that the poller and the status command read:
  \<^verbatim>\<open>_session\<close> (set or not), \<^verbatim>\<open>_channel\<close> (the channel to post in, if any),
  \<^verbatim>\<open>_last_seen\<close> and \<^verbatim>\<open>watch_names\<close>.
\<close>

record bot =
  session :: bool
  channel :: "nat option"
  last_seen :: "server_key set"
  watch_names :: "string set"

text \<open>
  What lies outside the bot: the state file, how many times it has been opened for
  writing, the messages sent to channels, and the log.
\<close>

record world =
  state_file :: state_file
  writes :: nat
  sent :: "(nat \<times> event) list"
  logged :: "log_entry list"

text \<open>
  \<^verbatim>\<open>save_state\<close>: the sorted keys are dumped to the file; any exception is swallowed by
  \<^verbatim>\<open>except Exception: pass\<close>, so nothing is raised and nothing is logged.
\<close>

definition save_state :: "server_key set \<Rightarrow> write_outcome \<Rightarrow> world \<Rightarrow> world" where
  "save_state keys wo w =
     w\<lparr>writes := Suc (writes w),
       state_file :=
         (case wo of
            Written \<Rightarrow> Stored (sorted_list_of_set keys)
          | OpenFailed \<Rightarrow> state_file w
          | DumpFailed \<Rightarrow> Unreadable)\<rparr>"

subsection \<open>Fetching\<close>

text \<open>
  What the HTTP request to \<^verbatim>\<open>{backend_url}/servers\<close> comes to: no answer within the
  timeout, a transport failure, or a response with a status and a body, which decodes to
  a list of records or does not decode.
\<close>

datatype http_outcome =
    TimedOut
  | ConnectionFailed
  | Response nat "raw_record list option"

text \<open>
  \<^verbatim>\<open>fetch_servers\<close>: \<^verbatim>\<open>raise_for_status\<close> raises for a status of 400 and above, then
  \<^verbatim>\<open>resp.json()\<close> decodes the body.
\<close>

definition fetch_servers :: "http_outcome \<Rightarrow> fetch_error + raw_record list" where
  "fetch_servers h =
     (case h of
        TimedOut \<Rightarrow> Inl Timeout
      | ConnectionFailed \<Rightarrow> Inl Transport
      | Response status body \<Rightarrow>
          if 400 \<le> status then Inl (BadStatus status)
          else (case body of None \<Rightarrow> Inl BadBody | Some servers \<Rightarrow> Inr servers))"

subsection \<open>The poll cycle\<close>

text \<open>A call of the poller returns, or an exception leaves it.\<close>

datatype outcome = Returned | Raised py_error

text \<open>
  The events of one cycle, in the order of the two loops:
  \<^verbatim>\<open>for ... in sorted(ups)\<close>, then \<^verbatim>\<open>for ... in sorted(downs)\<close>.
\<close>

definition events :: "server_key set \<Rightarrow> server_key set \<Rightarrow> event list" where
  "events ups downs = map Up (sorted_list_of_set ups) @ map Down (sorted_list_of_set downs)"

text \<open>
  \<^verbatim>\<open>WatcherBot.poller\<close>, one run of the loop body. With a channel the events are sent
  to it, without one they are logged.
\<close>

definition poller :: "bot \<Rightarrow> world \<Rightarrow> http_outcome \<Rightarrow> write_outcome \<Rightarrow> outcome \<times> bot \<times> world" where
  "poller b w h wo =
     (if \<not> session b then (Returned, b, w)
      else
        (case fetch_servers h of
           Inl e \<Rightarrow> (Returned, b, w\<lparr>logged := logged w @ [FetchWarning e]\<rparr>)
         | Inr servers \<Rightarrow>
             (case key_set (tracked (watch_names b) servers) of
                Inl e \<Rightarrow> (Raised e, b, w)
              | Inr current \<Rightarrow>
                  (let ups = fst (diff (last_seen b) current);
                       downs = snd (diff (last_seen b) current);
                       changed = (ups \<noteq> {} \<or> downs \<noteq> {});
                       w1 = (if changed then save_state current wo w else w);
                       b1 = (if changed then b\<lparr>last_seen := current\<rparr> else b);
                       w2 = (case channel b1 of
                               Some ch \<Rightarrow> w1\<lparr>sent := sent w1 @ map (Pair ch) (events ups downs)\<rparr>
                             | None \<Rightarrow> w1\<lparr>logged := logged w1 @ map Info (events ups downs)\<rparr>)
                   in (Returned, b1, w2)))))"

subsection \<open>The status command\<close>

text \<open>
  The reply of \<^verbatim>\<open>/status\<close>: the formatted list of the records shown, the text
  \<^verbatim>\<open>"No servers found."\<close>, or \<^verbatim>\<open>"Error: ..."\<close> with the exception. Without a session
  the fetch raises at once (an attribute of \<^verbatim>\<open>None\<close> is read).
\<close>

datatype status_error = NoSession | FetchFailed fetch_error

datatype reply = ServerList "raw_record list" | NoServersFound | ErrorReply status_error

definition status_cmd :: "bot \<Rightarrow> http_outcome \<Rightarrow> reply" where
  "status_cmd b h =
     (if \<not> session b then ErrorReply NoSession
      else
        (case fetch_servers h of
           Inl e \<Rightarrow> ErrorReply (FetchFailed e)
         | Inr servers \<Rightarrow>
             (let shown = tracked (watch_names b) servers
              in if shown = [] then NoServersFound else ServerList shown)))"

subsection \<open>Notions used to state the properties\<close>








section \<open>Auxiliary facts\<close>

lemma key_set_elems:
  "key_set ss = Inr ks \<Longrightarrow> ks = {k. \<exists>s \<in> set ss. key s = Inr k}"
proof (induction ss arbitrary: ks)
  case Nil
  then show ?case by simp
next
  case (Cons s ss)
  then show ?case by (auto split: sum.splits)
qed

lemma key_set_raises:
  "(\<exists>e. key_set ss = Inl e) \<longleftrightarrow> (\<exists>s \<in> set ss. \<exists>e. key s = Inl e)"
  by (induction ss) (auto split: sum.splits)

lemma key_set_finite: "key_set ss = Inr ks \<Longrightarrow> finite ks"
  by (induction ss arbitrary: ks) (auto split: sum.splits)

lemma key_set_order:
  assumes "set ss' = set ss" and "key_set ss = Inr ks"
  shows "key_set ss' = Inr ks"
proof (cases "key_set ss'")
  case (Inl e)
  then have "\<exists>s \<in> set ss'. \<exists>e. key s = Inl e" using key_set_raises by blast
  then have "\<exists>e. key_set ss = Inl e" using assms(1) key_set_raises by simp
  with assms(2) show ?thesis by simp
next
  case (Inr ks')
  then show ?thesis using key_set_elems[OF Inr] key_set_elems[OF assms(2)] assms(1) by simp
qed

lemma tracked_set: "set ss' = set ss \<Longrightarrow> set (tracked F ss') = set (tracked F ss)"
  by (simp add: tracked_def)

text \<open>A cycle whose fetch and key resolution succeed, in one equation.\<close>

lemma poller_changes:
  assumes "session b" and "fetch_servers h = Inr servers"
    and "key_set (tracked (watch_names b) servers) = Inr current"
  shows "poller b w h wo =
    (let changed = (current \<noteq> last_seen b);
         w1 = (if changed then save_state current wo w else w);
         evs = events (current - last_seen b) (last_seen b - current)
     in (Returned, if changed then b\<lparr>last_seen := current\<rparr> else b,
         case channel b of
           Some ch \<Rightarrow> w1\<lparr>sent := sent w1 @ map (Pair ch) evs\<rparr>
         | None \<Rightarrow> w1\<lparr>logged := logged w1 @ map Info evs\<rparr>))"
proof -
  have "(current - last_seen b \<noteq> {} \<or> last_seen b - current \<noteq> {}) = (current \<noteq> last_seen b)"
    by blast
  then show ?thesis using assms by (simp add: poller_def diff_def Let_def)
qed














section \<open>The diff\<close>

text \<open>
  C1. Diffing a previous and a current snapshot gives the keys that are in the current
  one only (appeared) and those that are in the previous one only (disappeared). A
  snapshot diffed with itself gives two empty sets, and no key is both appeared and
  disappeared.
\<close>

theorem diff_set_differences:
  "fst (diff previous current) = current - previous \<and>
   snd (diff previous current) = previous - current \<and>
   diff previous previous = ({}, {}) \<and>
   fst (diff previous current) \<inter> snd (diff previous current) = {}"
  by (auto simp: diff_def)

section \<open>A failed fetch\<close>

text \<open>
  C2. When the fetch of a poll cycle fails, the cycle ends there: the poller returns, the
  bot (with its snapshot) is as before, and so are the state file, the count of writes
  and the messages sent; the log gains the fetch warning and no event line. A timeout,
  a transport failure and a status of 400 or above are such failures.
\<close>

theorem fetch_failure_aborts_cycle:
  assumes "fetch_servers h = Inl e"
  shows "poller b w h wo =
           (Returned, b, if session b then w\<lparr>logged := logged w @ [FetchWarning e]\<rparr> else w) \<and>
         fetch_servers TimedOut = Inl Timeout \<and>
         fetch_servers ConnectionFailed = Inl Transport \<and>
         (400 \<le> status \<longrightarrow> fetch_servers (Response status body) = Inl (BadStatus status))"
  using assms by (simp add: poller_def fetch_servers_def)

theorem fetch_failure_aborts_cycle_witness:
  "poller
     \<lparr>session = True, channel = Some 7, last_seen = {(''A'', ''1.1.1.1'', 100)}, watch_names = {}\<rparr>
     \<lparr>state_file = Stored [(''A'', ''1.1.1.1'', 100)], writes = 0, sent = [], logged = []\<rparr>
     TimedOut Written =
   (Returned,
    \<lparr>session = True, channel = Some 7, last_seen = {(''A'', ''1.1.1.1'', 100)}, watch_names = {}\<rparr>,
    \<lparr>state_file = Stored [(''A'', ''1.1.1.1'', 100)], writes = 0, sent = [],
       logged = [FetchWarning Timeout]\<rparr>)"
  using fetch_failure_aborts_cycle
    [where h = TimedOut and e = Timeout and wo = Written
       and b = "\<lparr>session = True, channel = Some 7, last_seen = {(''A'', ''1.1.1.1'', 100)},
                 watch_names = {}\<rparr>"
       and w = "\<lparr>state_file = Stored [(''A'', ''1.1.1.1'', 100)], writes = 0, sent = [],
                 logged = []\<rparr>"]
  by (simp add: fetch_servers_def)

section \<open>An unchanged world\<close>

text \<open>
  C3. In a poll cycle whose fetch and key resolution succeed and whose delta is empty,
  nothing changes: no write of the state file, the same snapshot, no message and no log
  line. The state file is opened for writing in such a cycle exactly when the delta is
  not empty.
\<close>

theorem unchanged_cycle:
  assumes "session b" and "fetch_servers h = Inr servers"
    and "key_set (tracked (watch_names b) servers) = Inr current"
  shows "(diff (last_seen b) current = ({}, {}) \<longrightarrow> poller b w h wo = (Returned, b, w)) \<and>
         (writes (snd (snd (poller b w h wo))) \<noteq> writes w \<longleftrightarrow>
            diff (last_seen b) current \<noteq> ({}, {}))"
proof -
  have d: "(diff (last_seen b) current = ({}, {})) = (current = last_seen b)"
    by (auto simp: diff_def)
  show ?thesis
    unfolding d poller_changes[OF assms]
    by (auto simp: Let_def events_def save_state_def split: option.splits)
qed

theorem unchanged_cycle_witness:
  "poller
     \<lparr>session = True, channel = Some 7, last_seen = {(''A'', ''1.1.1.1'', 100)}, watch_names = {}\<rparr>
     \<lparr>state_file = Stored [(''A'', ''1.1.1.1'', 100)], writes = 1, sent = [], logged = []\<rparr>
     (Response 200 (Some [\<lparr>name = Some ''A'', public_ip = Some ''1.1.1.1'', port = Some (JInt 100)\<rparr>]))
     Written =
   (Returned,
    \<lparr>session = True, channel = Some 7, last_seen = {(''A'', ''1.1.1.1'', 100)}, watch_names = {}\<rparr>,
    \<lparr>state_file = Stored [(''A'', ''1.1.1.1'', 100)], writes = 1, sent = [], logged = []\<rparr>)"
  using unchanged_cycle
    [where wo = Written and current = "{(''A'', ''1.1.1.1'', 100)}"
       and servers = "[\<lparr>name = Some ''A'', public_ip = Some ''1.1.1.1'', port = Some (JInt 100)\<rparr>]"
       and h = "Response 200
                  (Some [\<lparr>name = Some ''A'', public_ip = Some ''1.1.1.1'', port = Some (JInt 100)\<rparr>])"
       and b = "\<lparr>session = True, channel = Some 7, last_seen = {(''A'', ''1.1.1.1'', 100)},
                 watch_names = {}\<rparr>"
       and w = "\<lparr>state_file = Stored [(''A'', ''1.1.1.1'', 100)], writes = 1, sent = [],
                 logged = []\<rparr>"]
  by (simp add: fetch_servers_def tracked_def key_def py_int_def diff_def)

section \<open>The state file\<close>

text \<open>
  C4. Loading the state after a successful save of a snapshot gives the snapshot back,
  the empty one included. The file written holds the keys of the snapshot in ascending
  order, each once, whatever the file held before.
\<close>

theorem state_round_trip:
  assumes "finite S"
  shows "load_state (state_file (save_state S Written w)) = S \<and>
         (\<exists>ks. state_file (save_state S Written w) = Stored ks \<and>
               sorted ks \<and> distinct ks \<and> set ks = S) \<and>
         state_file (save_state S Written w) = state_file (save_state S Written w') \<and>
         load_state (state_file (save_state {} Written w)) = {}"
  using assms by (simp add: load_state_def save_state_def)

theorem state_round_trip_witness:
  "load_state (state_file (save_state {(''B'', ''2.2.2.2'', 200), (''A'', ''1.1.1.1'', 100)} Written
     \<lparr>state_file = Missing, writes = 0, sent = [], logged = []\<rparr>)) =
   {(''B'', ''2.2.2.2'', 200), (''A'', ''1.1.1.1'', 100)}"
  using state_round_trip
    [where S = "{(''B'', ''2.2.2.2'', 200), (''A'', ''1.1.1.1'', 100)}"
       and w = "\<lparr>state_file = Missing, writes = 0, sent = [], logged = []\<rparr>"]
  by simp

section \<open>The order of the events\<close>

text \<open>
  C5. In a poll cycle whose fetch and key resolution succeed, the events go out as one
  batch of appeared keys followed by one batch of disappeared keys; each batch holds
  its keys once, in ascending lexicographic order of (name, address, port). They are
  sent to the channel when there is one and logged otherwise. The outcome is the same
  for every fetched list with the same records, whatever their order.
\<close>

theorem cycle_event_order:
  assumes "session b" and "finite (last_seen b)" and "fetch_servers h = Inr servers"
    and "key_set (tracked (watch_names b) servers) = Inr current"
  shows "\<exists>us ds.
           sorted us \<and> distinct us \<and> set us = current - last_seen b \<and>
           sorted ds \<and> distinct ds \<and> set ds = last_seen b - current \<and>
           (case channel b of
              Some ch \<Rightarrow>
                sent (snd (snd (poller b w h wo))) = sent w @ map (Pair ch) (map Up us @ map Down ds) \<and>
                logged (snd (snd (poller b w h wo))) = logged w
            | None \<Rightarrow>
                logged (snd (snd (poller b w h wo))) = logged w @ map Info (map Up us @ map Down ds) \<and>
                sent (snd (snd (poller b w h wo))) = sent w) \<and>
           (\<forall>h' servers'. fetch_servers h' = Inr servers' \<and> set servers' = set servers
              \<longrightarrow> poller b w h' wo = poller b w h wo)"
proof -
  let ?us = "sorted_list_of_set (current - last_seen b)"
  let ?ds = "sorted_list_of_set (last_seen b - current)"
  have fc: "finite current" using assms(4) by (rule key_set_finite)
  have 1: "sorted ?us \<and> distinct ?us \<and> set ?us = current - last_seen b"
    using fc by simp
  have 2: "sorted ?ds \<and> distinct ?ds \<and> set ?ds = last_seen b - current"
    using assms(2) by simp
  have 3: "(case channel b of
              Some ch \<Rightarrow>
                sent (snd (snd (poller b w h wo))) = sent w @ map (Pair ch) (map Up ?us @ map Down ?ds) \<and>
                logged (snd (snd (poller b w h wo))) = logged w
            | None \<Rightarrow>
                logged (snd (snd (poller b w h wo))) = logged w @ map Info (map Up ?us @ map Down ?ds) \<and>
                sent (snd (snd (poller b w h wo))) = sent w)"
    unfolding poller_changes[OF assms(1,3,4)]
    by (simp add: Let_def events_def save_state_def split: option.splits)
  have 4: "poller b w h' wo = poller b w h wo"
    if "fetch_servers h' = Inr servers'" and "set servers' = set servers" for h' servers'
  proof -
    have k: "key_set (tracked (watch_names b) servers') = Inr current"
      using key_set_order[OF tracked_set[OF that(2)] assms(4)] .
    show ?thesis
      unfolding poller_changes[OF assms(1,3,4)] poller_changes[OF assms(1) that(1) k] ..
  qed
  from 1 2 3 4 show ?thesis by blast
qed

theorem cycle_event_order_witness:
  "sent (snd (snd (poller
     \<lparr>session = True, channel = Some 7, last_seen = {(''C'', ''3.3.3.3'', 300)}, watch_names = {}\<rparr>
     \<lparr>state_file = Stored [(''C'', ''3.3.3.3'', 300)], writes = 0, sent = [], logged = []\<rparr>
     (Response 200 (Some
        [\<lparr>name = Some ''B'', public_ip = Some ''2.2.2.2'', port = Some (JInt 200)\<rparr>,
         \<lparr>name = Some ''A'', public_ip = Some ''1.1.1.1'', port = Some (JInt 100)\<rparr>]))
     Written))) =
   [(7, Up (''A'', ''1.1.1.1'', 100)), (7, Up (''B'', ''2.2.2.2'', 200)),
    (7, Down (''C'', ''3.3.3.3'', 300))]"
proof -
  let ?b = "\<lparr>session = True, channel = Some 7, last_seen = {(''C'', ''3.3.3.3'', 300)},
              watch_names = {}\<rparr>"
  let ?w = "\<lparr>state_file = Stored [(''C'', ''3.3.3.3'', 300)], writes = 0, sent = [],
              logged = []\<rparr>"
  let ?servers = "[\<lparr>name = Some ''B'', public_ip = Some ''2.2.2.2'', port = Some (JInt 200)\<rparr>,
                   \<lparr>name = Some ''A'', public_ip = Some ''1.1.1.1'', port = Some (JInt 100)\<rparr>]"
  let ?h = "Response 200 (Some ?servers)"
  let ?current = "{(''B'', ''2.2.2.2'', 200), (''A'', ''1.1.1.1'', 100)} :: server_key set"
  have h1: "session ?b" and h2: "finite (last_seen ?b)"
    and h3: "fetch_servers ?h = Inr ?servers"
    and h4: "key_set (tracked (watch_names ?b) ?servers) = Inr ?current"
    by (simp_all add: fetch_servers_def tracked_def key_def py_int_def)
  from cycle_event_order[OF h1 h2 h3 h4, of ?w Written]
  obtain us ds where us: "sorted us" "distinct us" "set us = ?current - last_seen ?b"
    and ds: "sorted ds" "distinct ds" "set ds = last_seen ?b - ?current"
    and out: "sent (snd (snd (poller ?b ?w ?h Written))) =
                sent ?w @ map (Pair 7) (map Up us @ map Down ds)"
    by auto
  have "set us = set [(''A'', ''1.1.1.1'', 100), (''B'', ''2.2.2.2'', 200)]"
    using us(3) by auto
  moreover have "sorted [(''A'', ''1.1.1.1'', 100 :: int), (''B'', ''2.2.2.2'', 200)]"
    and "distinct [(''A'', ''1.1.1.1'', 100 :: int), (''B'', ''2.2.2.2'', 200)]"
    by simp_all
  ultimately have u: "us = [(''A'', ''1.1.1.1'', 100), (''B'', ''2.2.2.2'', 200)]"
    using us(1,2) sorted_distinct_set_unique by blast
  have "set ds = set [(''C'', ''3.3.3.3'', 300)]"
    using ds(3) by auto
  then have d: "ds = [(''C'', ''3.3.3.3'', 300)]"
    using ds(1,2) sorted_distinct_set_unique[of ds "[(''C'', ''3.3.3.3'', 300)]"] by simp
  show ?thesis using out by (simp add: u d)
qed

section \<open>Malformed records\<close>











section \<open>The filter\<close>




section \<open>A failed write of the state file\<close>

text \<open>
  C8, as stated, fails in one part: a failed write is not logged. In the cycle below a
  server appears, opening the state file fails, and the log is as empty afterwards as
  it was before; the snapshot is replaced and the message is sent.
\<close>

theorem write_failure_not_logged:
  "poller \<lparr>session = True, channel = Some 7, last_seen = {}, watch_names = {}\<rparr>
     \<lparr>state_file = Missing, writes = 0, sent = [], logged = []\<rparr>
     (Response 200 (Some [\<lparr>name = Some ''A'', public_ip = Some ''1.1.1.1'', port = Some (JInt 100)\<rparr>]))
     OpenFailed =
   (Returned,
    \<lparr>session = True, channel = Some 7, last_seen = {(''A'', ''1.1.1.1'', 100)}, watch_names = {}\<rparr>,
    \<lparr>state_file = Missing, writes = 1, sent = [(7, Up (''A'', ''1.1.1.1'', 100))], logged = []\<rparr>)"
  by (simp add: poller_def fetch_servers_def tracked_def key_def py_int_def diff_def
      save_state_def events_def)

text \<open>
  C8, amended. In a poll cycle with a non-empty delta whose write of the state file
  fails, the failure is swallowed without a log line, the snapshot in memory is
  replaced by the new one, and the events of the cycle go out: the poller returns, and
  the messages sent and the log are those of the same cycle with a successful write.
\<close>

theorem write_failure_swallowed:
  assumes "session b" and "fetch_servers h = Inr servers"
    and "key_set (tracked (watch_names b) servers) = Inr current"
    and "diff (last_seen b) current \<noteq> ({}, {})"
    and "wo \<noteq> Written"
  shows "fst (poller b w h wo) = Returned \<and>
         last_seen (fst (snd (poller b w h wo))) = current \<and>
         (case channel b of
            Some ch \<Rightarrow>
              sent (snd (snd (poller b w h wo))) =
                sent w @ map (Pair ch) (events (current - last_seen b) (last_seen b - current)) \<and>
              logged (snd (snd (poller b w h wo))) = logged w
          | None \<Rightarrow>
              logged (snd (snd (poller b w h wo))) =
                logged w @ map Info (events (current - last_seen b) (last_seen b - current)) \<and>
              sent (snd (snd (poller b w h wo))) = sent w) \<and>
         sent (snd (snd (poller b w h wo))) = sent (snd (snd (poller b w h Written))) \<and>
         logged (snd (snd (poller b w h wo))) = logged (snd (snd (poller b w h Written))) \<and>
         fst (snd (poller b w h wo)) = fst (snd (poller b w h Written))"
proof -
  have d: "current \<noteq> last_seen b" using assms(4) by (auto simp: diff_def)
  show ?thesis
    unfolding poller_changes[OF assms(1-3)] using d
    by (simp add: Let_def save_state_def split: option.splits)
qed

theorem write_failure_swallowed_witness:
  "poller \<lparr>session = True, channel = None, last_seen = {(''A'', ''1.1.1.1'', 100)}, watch_names = {}\<rparr>
     \<lparr>state_file = Stored [(''A'', ''1.1.1.1'', 100)], writes = 1, sent = [], logged = []\<rparr>
     (Response 200 (Some [])) DumpFailed =
   (Returned,
    \<lparr>session = True, channel = None, last_seen = {}, watch_names = {}\<rparr>,
    \<lparr>state_file = Unreadable, writes = 2, sent = [],
       logged = [Info (Down (''A'', ''1.1.1.1'', 100))]\<rparr>)"
proof -
  let ?b = "\<lparr>session = True, channel = None, last_seen = {(''A'', ''1.1.1.1'', 100)},
              watch_names = {}\<rparr>"
  let ?w = "\<lparr>state_file = Stored [(''A'', ''1.1.1.1'', 100)], writes = 1, sent = [],
              logged = []\<rparr>"
  let ?h = "Response 200 (Some [])"
  have h1: "session ?b" and h2: "fetch_servers ?h = Inr []"
    and h3: "key_set (tracked (watch_names ?b) []) = Inr {}"
    and h4: "diff (last_seen ?b) {} \<noteq> ({}, {})"
    and h5: "DumpFailed \<noteq> Written"
    by (simp_all add: fetch_servers_def tracked_def diff_def)
  have "last_seen (fst (snd (poller ?b ?w ?h DumpFailed))) = {}"
    using write_failure_swallowed[OF h1 h2 h3 h4 h5, of ?w] by (elim conjE)
  then show ?thesis
    by (simp add: poller_def fetch_servers_def tracked_def diff_def save_state_def events_def)
qed

section \<open>The status command during a fetch failure\<close>

text \<open>
  C9, as stated, fails: when the fetch fails, the reply of the status command is the
  error. Here the bot knows one server and the fetch times out.
\<close>

theorem status_reports_error:
  "status_cmd
     \<lparr>session = True, channel = Some 7, last_seen = {(''A'', ''1.1.1.1'', 100)}, watch_names = {}\<rparr>
     TimedOut = ErrorReply (FetchFailed Timeout)"
  by (simp add: status_cmd_def fetch_servers_def)

text \<open>
  C9, amended. For every status query issued while the fetch fails, the reply is the
  error of the fetch; it does not depend on the last-known snapshot, which the command
  never reads.
\<close>

theorem status_on_fetch_failure:
  assumes "session b" and "fetch_servers h = Inl e"
  shows "status_cmd b h = ErrorReply (FetchFailed e) \<and>
         status_cmd (b\<lparr>last_seen := S\<rparr>) h = status_cmd b h"
  using assms by (simp add: status_cmd_def)

theorem status_on_fetch_failure_witness:
  "status_cmd
     \<lparr>session = True, channel = None, last_seen = {(''A'', ''1.1.1.1'', 100)}, watch_names = {''A''}\<rparr>
     (Response 503 None) = ErrorReply (FetchFailed (BadStatus 503))"
  using status_on_fetch_failure
    [where h = "Response 503 None" and e = "BadStatus 503"
       and b = "\<lparr>session = True, channel = None, last_seen = {(''A'', ''1.1.1.1'', 100)},
                 watch_names = {''A''}\<rparr>"]
  by (simp add: fetch_servers_def)

section \<open>A port written as a string\<close>



end
